theory Spec2Isabelle
  imports Complex_Main "HOL-Library.Sublist"
begin

section \<open>Python primitives used by the item services\<close>

text \<open>
  The two item services (\<^verbatim>\<open>custom_base_model/main.py\<close> and \<^verbatim>\<open>simple_server/main.py\<close>)
  use these operations of Python's built-in list and int: \<^verbatim>\<open>len(items)\<close>,
  \<^verbatim>\<open>items.append(item)\<close> (written \<open>items @ [item]\<close> below), the slice \<^verbatim>\<open>items[0:limit]\<close>, the subscript
  \<^verbatim>\<open>items[item_id]\<close>, and the decimal formatting of an int inside an f-string.
  They are written out here with the behaviour Python gives them on every int, negative
  ones included.
\<close>

definition len :: "'a list \<Rightarrow> int" where
  "len xs = int (length xs)"

text \<open>
  A slice bound is clamped into \<open>[0, n]\<close>: a negative bound counts from the end and
  stops at \<open>0\<close>, a bound beyond the end stops at \<open>n\<close>.
\<close>

definition adjust_index :: "int \<Rightarrow> int \<Rightarrow> int" where
  "adjust_index n i =
     (if i < 0 then (if i + n < 0 then 0 else i + n)
      else if n \<le> i then n
      else i)"

definition slice :: "'a list \<Rightarrow> int \<Rightarrow> int \<Rightarrow> 'a list" where
  "slice xs start stop =
     (let n = len xs;
          a = adjust_index n start;
          b = adjust_index n stop
      in if a < b then take (nat (b - a)) (drop (nat a) xs) else [])"

datatype error = HTTPException (status_code: int) (detail: string) | IndexError

text \<open>
  The subscript \<^verbatim>\<open>xs[i]\<close>: a negative index counts from the end, and an index outside
  \<open>[-n, n)\<close> raises \<^verbatim>\<open>IndexError\<close>.
\<close>

definition getitem :: "'a list \<Rightarrow> int \<Rightarrow> error + 'a" where
  "getitem xs i =
     (if len xs \<le> i \<or> i < - len xs then Inl IndexError
      else if i < 0 then Inr (xs ! nat (len xs + i))
      else Inr (xs ! nat i))"

text \<open>Decimal formatting of an int, as \<^verbatim>\<open>f"{i}"\<close> and \<^verbatim>\<open>str(i)\<close> produce it.\<close>

definition digit :: "nat \<Rightarrow> char" where
  "digit d = ''0123456789'' ! d"

fun str_nat :: "nat \<Rightarrow> string" where
  "str_nat n = (if n < 10 then [digit n] else str_nat (n div 10) @ [digit (n mod 10)])"

declare str_nat.simps [simp del]

definition str :: "int \<Rightarrow> string" where
  "str i = (if i < 0 then CHR ''-'' # str_nat (nat (- i)) else str_nat (nat i))"

section \<open>The typed item service (custom\_base\_model/main.py)\<close>

record Item =
  name :: string
  description :: "string option"
  price :: real
  quantity :: int

text \<open>
  The keyword arguments from which the \<^verbatim>\<open>Item\<close> class is instantiated: each field is
  either missing or given. \<^verbatim>\<open>name\<close> and \<^verbatim>\<open>price\<close> have no default and are required;
  \<^verbatim>\<open>description\<close> defaults to \<^verbatim>\<open>None\<close> and \<^verbatim>\<open>quantity\<close> to \<open>1\<close>. A price is only ever
  stored and returned, never computed with, so it is kept as the number it denotes.
\<close>

datatype 'a arg = Missing | Given 'a

record Item_args =
  name_arg :: "string arg"
  description_arg :: "string option arg"
  price_arg :: "real arg"
  quantity_arg :: "int arg"

datatype ValidationError = Field_required "string list"

definition or_default :: "'a \<Rightarrow> 'a arg \<Rightarrow> 'a" where
  "or_default d a = (case a of Missing \<Rightarrow> d | Given v \<Rightarrow> v)"

definition Item_init :: "Item_args \<Rightarrow> ValidationError + Item" where
  "Item_init kw =
     (case (name_arg kw, price_arg kw) of
        (Given n, Given p) \<Rightarrow>
          Inr \<lparr>name = n,
               description = or_default None (description_arg kw),
               price = p,
               quantity = or_default 1 (quantity_arg kw)\<rparr>
      | (Missing, Given p) \<Rightarrow> Inl (Field_required [''name''])
      | (Given n, Missing) \<Rightarrow> Inl (Field_required [''price''])
      | (Missing, Missing) \<Rightarrow> Inl (Field_required [''name'', ''price'']))"

text \<open>
  The module-level list \<^verbatim>\<open>items\<close> is the only state. Every handler takes the list as it
  is before the call and returns its response paired with the list as it is after the
  call.
\<close>

definition typed_create_item :: "Item \<Rightarrow> Item list \<Rightarrow> Item list \<times> Item list" where
  "typed_create_item item items =
     (let items' = items @ [item] in (items', items'))"

definition typed_list_items :: "int option \<Rightarrow> Item list \<Rightarrow> Item list \<times> Item list" where
  "typed_list_items limit items =
     (case limit of
        Some l \<Rightarrow> (slice items 0 l, items)
      | None \<Rightarrow> (items, items))"

definition typed_get_item :: "int \<Rightarrow> Item list \<Rightarrow> (error + Item) \<times> Item list" where
  "typed_get_item item_id items =
     (if item_id < 0 \<or> item_id \<ge> len items
      then (Inl (HTTPException 404 (''Item '' @ str item_id @ '' not found'')), items)
      else (getitem items item_id, items))"

text \<open>
  The route \<^verbatim>\<open>POST /items\<close> declares its parameter as \<^verbatim>\<open>item: Item\<close>: the request body is
  turned into an \<^verbatim>\<open>Item\<close> first, and \<open>create_item\<close> is called only when that succeeded.
\<close>

definition typed_post_items ::
    "Item_args \<Rightarrow> Item list \<Rightarrow> (ValidationError + Item list) \<times> Item list" where
  "typed_post_items body items =
     (case Item_init body of
        Inl e \<Rightarrow> (Inl e, items)
      | Inr item \<Rightarrow> map_prod Inr id (typed_create_item item items))"

section \<open>The untyped item service (simple\_server/main.py)\<close>

definition simple_create_item :: "string \<Rightarrow> string list \<Rightarrow> string list \<times> string list" where
  "simple_create_item item items =
     (let items' = items @ [item] in (items', items'))"

definition simple_list_items :: "int option \<Rightarrow> string list \<Rightarrow> string list \<times> string list" where
  "simple_list_items limit items =
     (case limit of
        Some l \<Rightarrow> (slice items 0 l, items)
      | None \<Rightarrow> (items, items))"

definition simple_get_item :: "int \<Rightarrow> string list \<Rightarrow> (error + string) \<times> string list" where
  "simple_get_item item_id items =
     (if item_id < 0 \<or> item_id \<ge> len items
      then (Inl (HTTPException 404
                  (''Index '' @ str item_id @ '' out of range '' @ str (len items))), items)
      else (getitem items item_id, items))"

section \<open>Requests and runs\<close>

text \<open>
  The three routes of each service as one request type, and the service as the function
  that dispatches a request to its handler. A run feeds a list of requests to the service,
  one after the other, starting from a given list of items.
\<close>

datatype 'a request =
    POST_items 'a
  | GET_items "int option"
  | GET_items_id int

datatype 'a response =
    Item_list "'a list"
  | One_item 'a
  | Failed error

definition result :: "error + 'a \<Rightarrow> 'a response" where
  "result r = (case r of Inl e \<Rightarrow> Failed e | Inr x \<Rightarrow> One_item x)"

fun typed_service :: "Item request \<Rightarrow> Item list \<Rightarrow> Item response \<times> Item list" where
  "typed_service (POST_items item) items = map_prod Item_list id (typed_create_item item items)"
| "typed_service (GET_items limit) items = map_prod Item_list id (typed_list_items limit items)"
| "typed_service (GET_items_id item_id) items = map_prod result id (typed_get_item item_id items)"

fun simple_service :: "string request \<Rightarrow> string list \<Rightarrow> string response \<times> string list" where
  "simple_service (POST_items item) items = map_prod Item_list id (simple_create_item item items)"
| "simple_service (GET_items limit) items = map_prod Item_list id (simple_list_items limit items)"
| "simple_service (GET_items_id item_id) items = map_prod result id (simple_get_item item_id items)"

fun run :: "('r \<Rightarrow> 's \<Rightarrow> 'o \<times> 's) \<Rightarrow> 'r list \<Rightarrow> 's \<Rightarrow> 's" where
  "run service [] s = s"
| "run service (r # rs) s = run service rs (snd (service r s))"

section \<open>Facts about the Python primitives\<close>

lemma slice_from_0_nonneg:
  assumes "0 \<le> k"
  shows "slice xs 0 k = take (nat k) xs"
  using assms by (auto simp: slice_def len_def adjust_index_def Let_def)

lemma slice_from_0_neg:
  assumes "k < 0"
  shows "slice xs 0 k = take (nat (int (length xs) + k)) xs"
  using assms by (auto simp: slice_def len_def adjust_index_def Let_def add.commute)

lemma getitem_in_range:
  assumes "0 \<le> i" and "i < len xs"
  shows "getitem xs i = Inr (xs ! nat i)"
  using assms by (simp add: getitem_def)

lemma getitem_out_of_range:
  assumes "i < - len xs \<or> len xs \<le> i"
  shows "getitem xs i = Inl IndexError"
  using assms by (auto simp: getitem_def)

lemma str_nat_digit:
  assumes "n < 10"
  shows "str_nat n = [digit n]"
  using assms by (simp add: str_nat.simps)

lemma str_nat_step:
  assumes "10 \<le> n"
  shows "str_nat n = str_nat (n div 10) @ [digit (n mod 10)]"
  using assms by (subst str_nat.simps) simp

lemma str_0: "str 0 = ''0''"
  by (simp add: str_def str_nat_digit digit_def)

section \<open>Facts about the handlers\<close>

lemma typed_get_item_in_range:
  assumes "0 \<le> i" and "i < len s"
  shows "typed_get_item i s = (Inr (s ! nat i), s)"
  using assms by (simp add: typed_get_item_def getitem_in_range)

lemma simple_get_item_in_range:
  assumes "0 \<le> i" and "i < len s"
  shows "simple_get_item i s = (Inr (s ! nat i), s)"
  using assms by (simp add: simple_get_item_def getitem_in_range)

lemma typed_get_item_out_of_range:
  assumes "i < 0 \<or> len s \<le> i"
  shows "typed_get_item i s =
           (Inl (HTTPException 404 (''Item '' @ str i @ '' not found'')), s)"
  using assms by (auto simp: typed_get_item_def)

lemma simple_get_item_out_of_range:
  assumes "i < 0 \<or> len s \<le> i"
  shows "simple_get_item i s =
           (Inl (HTTPException 404 (''Index '' @ str i @ '' out of range '' @ str (len s))), s)"
  using assms by (auto simp: simple_get_item_def)

lemma typed_run_creates: "run typed_service (map POST_items xs) s = s @ xs"
  by (induction xs arbitrary: s) (simp_all add: typed_create_item_def Let_def)

lemma simple_run_creates: "run simple_service (map POST_items xs) s = s @ xs"
  by (induction xs arbitrary: s) (simp_all add: simple_create_item_def Let_def)

section \<open>Creation\<close>

text \<open>
  C1. In both services \<open>create_item\<close> appends the item to the end of the list and returns
  the whole updated list: response and new state are both the old list followed by the
  item. Hence, after any sequence of creates on the empty list, listing without a limit
  returns exactly the created items, in the order of their creation.
\<close>

theorem create_item_appends:
  "typed_create_item x s = (s @ [x], s @ [x]) \<and>
   simple_create_item y t = (t @ [y], t @ [y]) \<and>
   fst (typed_list_items None (run typed_service (map POST_items xs) [])) = xs \<and>
   fst (simple_list_items None (run simple_service (map POST_items ys) [])) = ys"
  by (simp add: typed_create_item_def simple_create_item_def Let_def
      typed_list_items_def simple_list_items_def typed_run_creates simple_run_creates)

section \<open>Retrieval by index\<close>

text \<open>
  C2. In both services \<open>get_item i\<close> succeeds exactly when \<open>0 \<le> i < length\<close>, and then
  returns the element at position \<open>i\<close> (which, after a sequence of creates, is the \<open>i\<close>-th
  created item); it fails with an \<open>HTTPException\<close> of status 404 exactly when \<open>i < 0\<close> or
  \<open>i \<ge> length\<close>. The \<open>IndexError\<close> of the subscript is never raised.
\<close>

theorem get_item_bounds:
  "((\<exists>v. fst (typed_get_item i s) = Inr v) \<longleftrightarrow> 0 \<le> i \<and> i < len s) \<and>
   (0 \<le> i \<and> i < len s \<longrightarrow> fst (typed_get_item i s) = Inr (s ! nat i)) \<and>
   ((\<exists>d. fst (typed_get_item i s) = Inl (HTTPException 404 d)) \<longleftrightarrow> i < 0 \<or> len s \<le> i) \<and>
   fst (typed_get_item i s) \<noteq> Inl IndexError \<and>
   (0 \<le> i \<and> i < len xs \<longrightarrow>
      fst (typed_get_item i (run typed_service (map POST_items xs) [])) = Inr (xs ! nat i)) \<and>
   ((\<exists>v. fst (simple_get_item i t) = Inr v) \<longleftrightarrow> 0 \<le> i \<and> i < len t) \<and>
   (0 \<le> i \<and> i < len t \<longrightarrow> fst (simple_get_item i t) = Inr (t ! nat i)) \<and>
   ((\<exists>d. fst (simple_get_item i t) = Inl (HTTPException 404 d)) \<longleftrightarrow> i < 0 \<or> len t \<le> i) \<and>
   fst (simple_get_item i t) \<noteq> Inl IndexError \<and>
   (0 \<le> i \<and> i < len ys \<longrightarrow>
      fst (simple_get_item i (run simple_service (map POST_items ys) [])) = Inr (ys ! nat i))"
proof -
  have typed: "((\<exists>v. fst (typed_get_item i u) = Inr v) \<longleftrightarrow> 0 \<le> i \<and> i < len u) \<and>
      (0 \<le> i \<and> i < len u \<longrightarrow> fst (typed_get_item i u) = Inr (u ! nat i)) \<and>
      ((\<exists>d. fst (typed_get_item i u) = Inl (HTTPException 404 d)) \<longleftrightarrow> i < 0 \<or> len u \<le> i) \<and>
      fst (typed_get_item i u) \<noteq> Inl IndexError" for u
  proof (cases "0 \<le> i \<and> i < len u")
    case True
    then show ?thesis by (simp add: typed_get_item_in_range)
  next
    case False
    then have "i < 0 \<or> len u \<le> i" by auto
    then show ?thesis by (auto simp: typed_get_item_out_of_range)
  qed
  have simple: "((\<exists>v. fst (simple_get_item i u) = Inr v) \<longleftrightarrow> 0 \<le> i \<and> i < len u) \<and>
      (0 \<le> i \<and> i < len u \<longrightarrow> fst (simple_get_item i u) = Inr (u ! nat i)) \<and>
      ((\<exists>d. fst (simple_get_item i u) = Inl (HTTPException 404 d)) \<longleftrightarrow> i < 0 \<or> len u \<le> i) \<and>
      fst (simple_get_item i u) \<noteq> Inl IndexError" for u
  proof (cases "0 \<le> i \<and> i < len u")
    case True
    then show ?thesis by (simp add: simple_get_item_in_range)
  next
    case False
    then have "i < 0 \<or> len u \<le> i" by auto
    then show ?thesis by (auto simp: simple_get_item_out_of_range)
  qed
  from typed [of s] typed [of xs] simple [of t] simple [of ys] show ?thesis
    by (simp add: typed_run_creates simple_run_creates)
qed

theorem get_item_bounds_witness:
  "(0::int) \<le> 1 \<and> 1 < len [''milk'', ''eggs''] \<and>
   fst (simple_get_item 1 [''milk'', ''eggs'']) = Inr ''eggs'' \<and>
   len [''milk'', ''eggs''] \<le> 2 \<and>
   (\<exists>d. fst (simple_get_item 2 [''milk'', ''eggs'']) = Inl (HTTPException 404 d)) \<and>
   (\<exists>d. fst (typed_get_item (- 1) []) = Inl (HTTPException 404 d)) \<and>
   fst (typed_get_item 0
         [\<lparr>name = ''Pear'', description = Some ''ripe'', price = 2, quantity = 3\<rparr>]) =
     Inr \<lparr>name = ''Pear'', description = Some ''ripe'', price = 2, quantity = 3\<rparr>"
  using get_item_bounds [where i = 1 and t = "[''milk'', ''eggs'']"]
    get_item_bounds [where i = 2 and t = "[''milk'', ''eggs'']"]
    get_item_bounds [where i = "- 1" and s = "[]"]
    get_item_bounds [where i = 0 and s =
      "[\<lparr>name = ''Pear'', description = Some ''ripe'', price = 2, quantity = 3\<rparr>]"]
  by (simp add: len_def)

text \<open>
  C5. On an index outside \<open>[0, length)\<close> the typed service fails with the detail
  \<open>Item {i} not found\<close> and the untyped service with the detail
  \<open>Index {i} out of range {length}\<close>, where \<open>{i}\<close> and \<open>{length}\<close> are the decimal
  representations of the index and of the current length. On the empty list, index \<open>0\<close>
  gives \<open>Item 0 not found\<close> in the typed service.
\<close>

theorem get_item_detail:
  "(i < 0 \<or> len s \<le> i \<longrightarrow>
      fst (typed_get_item i s) =
        Inl (HTTPException 404 (''Item '' @ str i @ '' not found''))) \<and>
   (i < 0 \<or> len t \<le> i \<longrightarrow>
      fst (simple_get_item i t) =
        Inl (HTTPException 404 (''Index '' @ str i @ '' out of range '' @ str (len t)))) \<and>
   fst (typed_get_item 0 []) = Inl (HTTPException 404 ''Item 0 not found'')"
proof -
  have "0 \<ge> len ([] :: Item list)"
    by (simp add: len_def)
  then have "fst (typed_get_item 0 []) = Inl (HTTPException 404 (''Item '' @ str 0 @ '' not found''))"
    by (simp add: typed_get_item_out_of_range)
  then show ?thesis
    by (simp add: typed_get_item_out_of_range simple_get_item_out_of_range str_0)
qed

theorem get_item_detail_witness:
  "len [''milk''] \<le> 12 \<and>
   fst (simple_get_item 12 [''milk'']) =
     Inl (HTTPException 404 ''Index 12 out of range 1'') \<and>
   (- 3 :: int) < 0 \<and>
   fst (typed_get_item (- 3) []) = Inl (HTTPException 404 ''Item -3 not found'')"
proof -
  have twelve: "str 12 = ''12''"
    by (simp add: str_def str_nat_step str_nat_digit digit_def)
  have one: "str (len [''milk'']) = ''1''"
    by (simp add: len_def str_def str_nat_digit digit_def)
  have minus_three: "str (- 3) = ''-3''"
    by (simp add: str_def str_nat_digit digit_def)
  have bound: "len [''milk''] \<le> 12"
    by (simp add: len_def)
  from get_item_detail [where i = 12 and t = "[''milk'']"] bound
  have "fst (simple_get_item 12 [''milk'']) =
      Inl (HTTPException 404 ''Index 12 out of range 1'')"
    by (simp add: twelve one)
  moreover from get_item_detail [where i = "- 3" and s = "[]"]
  have "fst (typed_get_item (- 3) []) = Inl (HTTPException 404 ''Item -3 not found'')"
    by (simp add: minus_three)
  ultimately show ?thesis
    using bound by simp
qed

text \<open>
  C7. A retrieval that fails because the index is outside \<open>[0, length)\<close> leaves the list
  of items as it was, in both services.
\<close>

theorem get_item_failure_keeps_items:
  "i < 0 \<or> len s \<le> i \<Longrightarrow> j < 0 \<or> len t \<le> j \<Longrightarrow>
   (\<exists>d. fst (typed_get_item i s) = Inl (HTTPException 404 d)) \<and>
   snd (typed_get_item i s) = s \<and>
   (\<exists>d. fst (simple_get_item j t) = Inl (HTTPException 404 d)) \<and>
   snd (simple_get_item j t) = t"
  by (simp add: typed_get_item_out_of_range simple_get_item_out_of_range)

theorem get_item_failure_keeps_items_witness:
  "snd (typed_get_item 1
         [\<lparr>name = ''Pear'', description = None, price = 2, quantity = 3\<rparr>]) =
     [\<lparr>name = ''Pear'', description = None, price = 2, quantity = 3\<rparr>] \<and>
   snd (simple_get_item (- 1) [''milk'', ''eggs'']) = [''milk'', ''eggs'']"
proof -
  have typed: "(1::int) < 0 \<or>
      len [\<lparr>name = ''Pear'', description = None, price = 2, quantity = 3\<rparr>] \<le> 1"
    by (simp add: len_def)
  have simple: "(- 1 :: int) < 0 \<or> len [''milk'', ''eggs''] \<le> - 1"
    by simp
  from get_item_failure_keeps_items [OF typed simple] show ?thesis
    by simp
qed

section \<open>Listing\<close>

lemma length_slice_from_0_nonneg:
  assumes "0 \<le> k"
  shows "len (slice xs 0 k) = min k (len xs)"
  using assms by (simp add: slice_from_0_nonneg len_def)

lemma length_slice_from_0_neg:
  assumes "k < 0"
  shows "len (slice xs 0 k) = max (len xs + k) 0"
  using assms by (simp add: slice_from_0_neg len_def)

text \<open>
  C3. In both services, \<open>list_items\<close> with a limit \<open>k \<ge> 0\<close> returns the first
  \<open>min k length\<close> items: a prefix of the list, of that length. A limit at or beyond
  the length returns the whole list, and so does an absent limit.
\<close>

theorem list_items_limit:
  "(0 \<le> k \<longrightarrow>
      fst (typed_list_items (Some k) s) = take (nat (min k (len s))) s \<and>
      len (fst (typed_list_items (Some k) s)) = min k (len s) \<and>
      fst (simple_list_items (Some k) t) = take (nat (min k (len t))) t \<and>
      len (fst (simple_list_items (Some k) t)) = min k (len t)) \<and>
   (len s \<le> k \<longrightarrow> fst (typed_list_items (Some k) s) = s) \<and>
   (len t \<le> k \<longrightarrow> fst (simple_list_items (Some k) t) = t) \<and>
   fst (typed_list_items None s) = s \<and>
   fst (simple_list_items None t) = t"
proof -
  have prefix_of: "take (nat k) xs = take (nat (min k (len xs))) xs" for xs :: "'a list"
    by (simp add: len_def min_def)
  have whole: "slice xs 0 k = xs" if "len xs \<le> k" for xs :: "'a list"
  proof -
    from that have "0 \<le> k" and "length xs \<le> nat k"
      by (simp_all add: len_def)
    then show ?thesis
      by (simp add: slice_from_0_nonneg)
  qed
  have size: "len (take (nat (min k (len xs))) xs) = min k (len xs)"
    if "0 \<le> k" for xs :: "'a list"
    using that by (simp add: len_def)
  have first: "slice xs 0 k = take (nat (min k (len xs))) xs"
    if "0 \<le> k" for xs :: "'a list"
    using that prefix_of [of xs] by (simp add: slice_from_0_nonneg)
  show ?thesis
    by (simp add: typed_list_items_def simple_list_items_def first size whole)
qed

theorem list_items_limit_witness:
  "(0::int) \<le> 1 \<and>
   fst (simple_list_items (Some 1) [''milk'', ''eggs'', ''tea'']) = [''milk''] \<and>
   len [''milk'', ''eggs'', ''tea''] \<le> 5 \<and>
   fst (simple_list_items (Some 5) [''milk'', ''eggs'', ''tea'']) = [''milk'', ''eggs'', ''tea''] \<and>
   fst (typed_list_items (Some 0)
         [\<lparr>name = ''Pear'', description = None, price = 2, quantity = 3\<rparr>]) = [] \<and>
   len ([] :: Item list) \<le> 0 \<and>
   fst (typed_list_items (Some 0) []) = []"
  using list_items_limit [where k = 1 and t = "[''milk'', ''eggs'', ''tea'']"]
    list_items_limit [where k = 5 and t = "[''milk'', ''eggs'', ''tea'']"]
    list_items_limit [where k = 0 and s =
      "[\<lparr>name = ''Pear'', description = None, price = 2, quantity = 3\<rparr>]"]
    list_items_limit [where k = 0 and s = "[]"]
  by (simp add: len_def)

text \<open>
  C9. In both services, \<open>list_items\<close> with a negative limit \<open>l\<close> returns the first
  \<open>max (length + l) 0\<close> items, that is, the list without its last \<open>|l|\<close> items, and the
  empty list when \<open>|l| \<ge> length\<close>. The response is always a list.
\<close>

theorem list_items_negative_limit:
  "l < 0 \<Longrightarrow>
   fst (typed_list_items (Some l) s) = take (nat (max (len s + l) 0)) s \<and>
   fst (typed_list_items (Some l) s) @ drop (nat (max (len s + l) 0)) s = s \<and>
   len (fst (typed_list_items (Some l) s)) = max (len s + l) 0 \<and>
   (len s \<le> - l \<longrightarrow> fst (typed_list_items (Some l) s) = []) \<and>
   fst (simple_list_items (Some l) t) = take (nat (max (len t + l) 0)) t \<and>
   fst (simple_list_items (Some l) t) @ drop (nat (max (len t + l) 0)) t = t \<and>
   len (fst (simple_list_items (Some l) t)) = max (len t + l) 0 \<and>
   (len t \<le> - l \<longrightarrow> fst (simple_list_items (Some l) t) = [])"
proof -
  assume neg: "l < 0"
  have shape: "slice xs 0 l = take (nat (max (len xs + l) 0)) xs" for xs :: "'a list"
    using neg by (simp add: slice_from_0_neg len_def max_def)
  have size: "len (take (nat (max (len xs + l) 0)) xs) = max (len xs + l) 0" for xs :: "'a list"
    using neg by (simp add: len_def)
  have none: "take (nat (max (len xs + l) 0)) xs = []" if "len xs \<le> - l" for xs :: "'a list"
    using that by (simp add: max_def)
  show ?thesis
    by (simp add: typed_list_items_def simple_list_items_def shape size none)
qed

theorem list_items_negative_limit_witness:
  "(- 1 :: int) < 0 \<and>
   fst (simple_list_items (Some (- 1)) [''milk'', ''eggs'', ''tea'']) = [''milk'', ''eggs''] \<and>
   (- 4 :: int) < 0 \<and> len [''milk'', ''eggs'', ''tea''] \<le> - (- 4) \<and>
   fst (simple_list_items (Some (- 4)) [''milk'', ''eggs'', ''tea'']) = [] \<and>
   fst (typed_list_items (Some (- 1))
         [\<lparr>name = ''Pear'', description = None, price = 2, quantity = 3\<rparr>]) = []"
proof -
  have one: "(- 1 :: int) < 0" and four: "(- 4 :: int) < 0"
    by simp_all
  from list_items_negative_limit [OF one, where t = "[''milk'', ''eggs'', ''tea'']" and s =
      "[\<lparr>name = ''Pear'', description = None, price = 2, quantity = 3\<rparr>]"]
    list_items_negative_limit [OF four, where t = "[''milk'', ''eggs'', ''tea'']"]
  show ?thesis
    by (simp add: len_def)
qed

section \<open>The list of items over a run\<close>

lemma typed_list_items_state: "snd (typed_list_items limit s) = s"
  by (simp add: typed_list_items_def split: option.split)

lemma simple_list_items_state: "snd (simple_list_items limit s) = s"
  by (simp add: simple_list_items_def split: option.split)

lemma typed_get_item_state: "snd (typed_get_item i s) = s"
  by (simp add: typed_get_item_def)

lemma simple_get_item_state: "snd (simple_get_item i s) = s"
  by (simp add: simple_get_item_def)

lemma typed_create_item_state: "snd (typed_create_item x s) = s @ [x]"
  by (simp add: typed_create_item_def Let_def)

lemma simple_create_item_state: "snd (simple_create_item x s) = s @ [x]"
  by (simp add: simple_create_item_def Let_def)

lemma typed_service_state:
  "snd (typed_service r s) = (case r of POST_items x \<Rightarrow> s @ [x] | _ \<Rightarrow> s)"
  by (cases r)
    (simp_all add: typed_create_item_state typed_list_items_state typed_get_item_state)

lemma simple_service_state:
  "snd (simple_service r s) = (case r of POST_items x \<Rightarrow> s @ [x] | _ \<Rightarrow> s)"
  by (cases r)
    (simp_all add: simple_create_item_state simple_list_items_state simple_get_item_state)

lemma typed_run_prefix: "prefix s (run typed_service rs s)"
proof (induction rs arbitrary: s)
  case Nil
  show ?case by simp
next
  case (Cons r rs)
  have "prefix s (snd (typed_service r s))"
    by (simp add: typed_service_state split: request.split)
  also have "prefix (snd (typed_service r s)) (run typed_service rs (snd (typed_service r s)))"
    by (rule Cons.IH)
  finally show ?case by simp
qed

lemma simple_run_prefix: "prefix s (run simple_service rs s)"
proof (induction rs arbitrary: s)
  case Nil
  show ?case by simp
next
  case (Cons r rs)
  have "prefix s (snd (simple_service r s))"
    by (simp add: simple_service_state split: request.split)
  also have "prefix (snd (simple_service r s)) (run simple_service rs (snd (simple_service r s)))"
    by (rule Cons.IH)
  finally show ?case by simp
qed

lemma prefix_nth:
  assumes "prefix xs ys" and "i < length xs"
  shows "ys ! i = xs ! i"
  using assms by (auto simp: prefix_def nth_append)

text \<open>
  C4. The list of items is append-only. Every request leaves it unchanged or extends it
  by exactly one item at the end; hence over any run of requests the list at the start
  is a prefix of the list at the end, and every item that was in the list stays at its
  index with its value.
\<close>

theorem items_append_only:
  "(snd (typed_service r s) = s \<or> (\<exists>x. snd (typed_service r s) = s @ [x])) \<and>
   prefix s (run typed_service rs s) \<and>
   (\<forall>i < length s. run typed_service rs s ! i = s ! i) \<and>
   (snd (simple_service q t) = t \<or> (\<exists>y. snd (simple_service q t) = t @ [y])) \<and>
   prefix t (run simple_service qs t) \<and>
   (\<forall>i < length t. run simple_service qs t ! i = t ! i)"
proof -
  have "snd (typed_service r s) = s \<or> (\<exists>x. snd (typed_service r s) = s @ [x])"
    by (simp add: typed_service_state split: request.split)
  moreover have "snd (simple_service q t) = t \<or> (\<exists>y. snd (simple_service q t) = t @ [y])"
    by (simp add: simple_service_state split: request.split)
  moreover have "\<forall>i < length s. run typed_service rs s ! i = s ! i"
    using typed_run_prefix [of s rs] by (simp add: prefix_nth)
  moreover have "\<forall>i < length t. run simple_service qs t ! i = t ! i"
    using simple_run_prefix [of t qs] by (simp add: prefix_nth)
  ultimately show ?thesis
    using typed_run_prefix [of s rs] simple_run_prefix [of t qs] by blast
qed

theorem items_append_only_witness:
  "(0::nat) < length [''milk''] \<and>
   run simple_service
     [POST_items ''eggs'', GET_items (Some (- 1)), GET_items_id 7, POST_items ''tea'']
     [''milk''] ! 0 = ''milk'' \<and>
   (0::nat) < length [\<lparr>name = ''Pear'', description = None, price = 2, quantity = 3\<rparr>] \<and>
   run typed_service
     [GET_items_id 0, POST_items \<lparr>name = ''Fig'', description = None, price = 1, quantity = 1\<rparr>]
     [\<lparr>name = ''Pear'', description = None, price = 2, quantity = 3\<rparr>] ! 0 =
     \<lparr>name = ''Pear'', description = None, price = 2, quantity = 3\<rparr>"
proof -
  let ?qs = "[POST_items ''eggs'', GET_items (Some (- 1)), GET_items_id 7, POST_items ''tea'']"
  let ?pear = "\<lparr>name = ''Pear'', description = None, price = 2, quantity = 3\<rparr>"
  let ?rs = "[GET_items_id 0,
    POST_items \<lparr>name = ''Fig'', description = None, price = 1, quantity = 1\<rparr>]"
  note facts = items_append_only [where t = "[''milk'']" and qs = ?qs and s = "[?pear]" and rs = ?rs]
  from facts have "\<forall>i < length [''milk'']. run simple_service ?qs [''milk''] ! i = [''milk''] ! i"
    by blast
  then have simple: "run simple_service ?qs [''milk''] ! 0 = ''milk''"
    by simp
  from facts have "\<forall>i < length [?pear]. run typed_service ?rs [?pear] ! i = [?pear] ! i"
    by blast
  then have typed: "run typed_service ?rs [?pear] ! 0 = ?pear"
    by simp
  from simple typed show ?thesis
    by simp
qed

text \<open>
  C10. The reading handlers \<open>list_items\<close> and \<open>get_item\<close> return the list of items as
  they found it, for every limit and every index; \<open>create_item\<close> is the only handler
  that changes it.
\<close>

theorem reads_keep_items:
  "snd (typed_list_items limit s) = s \<and>
   snd (typed_get_item i s) = s \<and>
   snd (typed_create_item x s) \<noteq> s \<and>
   snd (simple_list_items limit t) = t \<and>
   snd (simple_get_item i t) = t \<and>
   snd (simple_create_item y t) \<noteq> t"
  by (simp add: typed_list_items_state typed_get_item_state typed_create_item_state
      simple_list_items_state simple_get_item_state simple_create_item_state)

section \<open>A create followed by a listing\<close>

text \<open>
  C6. On the empty list, posting the body \<open>{"name": "Apple", "price": 1.5}\<close>, with no
  description and no quantity, to the typed service and then listing without a limit
  yields exactly one item: name \<open>Apple\<close>, description \<open>None\<close>, price \<open>1.5\<close>, quantity \<open>1\<close>.
\<close>

theorem create_apple_then_list:
  "Item_init \<lparr>name_arg = Given ''Apple'', description_arg = Missing,
              price_arg = Given 1.5, quantity_arg = Missing\<rparr> =
     Inr \<lparr>name = ''Apple'', description = None, price = 1.5, quantity = 1\<rparr> \<and>
   fst (typed_list_items None
         (snd (typed_post_items
                 \<lparr>name_arg = Given ''Apple'', description_arg = Missing,
                  price_arg = Given 1.5, quantity_arg = Missing\<rparr> []))) =
     [\<lparr>name = ''Apple'', description = None, price = 1.5, quantity = 1\<rparr>]"
  by (simp add: Item_init_def or_default_def typed_post_items_def typed_create_item_def
      typed_list_items_def Let_def)

end
